theory Spec2Isabelle
  imports Complex_Main "HOL-Library.Word"
begin

section \<open>JavaScript numbers and the 8-bit clamped store\<close>

text \<open>
  The pixel code of \<^verbatim>\<open>imageUtils\<close> computes with JavaScript Numbers and stores the
  results into a \<^verbatim>\<open>Uint8ClampedArray\<close>. Finite Numbers are modelled by exact rationals
  (the rounding error of IEEE doubles is not represented); the non-finite values a division
  by zero produces are kept, so that every branch of the source has a value in the model.
\<close>

datatype jsnum = Num rat | PosInf | NegInf | NaN

text \<open>\<^verbatim>\<open>a / b\<close> on finite operands; the zero divisor of the source is \<open>+0\<close>.\<close>

definition js_div :: "rat \<Rightarrow> rat \<Rightarrow> jsnum" where
  "js_div a b =
     (if b \<noteq> 0 then Num (a / b)
      else if 0 < a then PosInf
      else if a < 0 then NegInf
      else NaN)"

text \<open>\<^verbatim>\<open>x * y\<close> and \<^verbatim>\<open>x + y\<close> with a finite right operand.\<close>

fun js_mul :: "jsnum \<Rightarrow> rat \<Rightarrow> jsnum" where
  "js_mul (Num a) y = Num (a * y)"
| "js_mul PosInf y = (if 0 < y then PosInf else if y < 0 then NegInf else NaN)"
| "js_mul NegInf y = (if 0 < y then NegInf else if y < 0 then PosInf else NaN)"
| "js_mul NaN y = NaN"

fun js_add :: "jsnum \<Rightarrow> rat \<Rightarrow> jsnum" where
  "js_add (Num a) y = Num (a + y)"
| "js_add PosInf y = PosInf"
| "js_add NegInf y = NegInf"
| "js_add NaN y = NaN"

text \<open>\<^verbatim>\<open>Math.min(c, v)\<close> and \<^verbatim>\<open>Math.max(c, v)\<close> with a finite constant \<open>c\<close>.\<close>

fun js_min :: "rat \<Rightarrow> jsnum \<Rightarrow> jsnum" where
  "js_min c (Num x) = Num (min c x)"
| "js_min c PosInf = Num c"
| "js_min c NegInf = NegInf"
| "js_min c NaN = NaN"

fun js_max :: "rat \<Rightarrow> jsnum \<Rightarrow> jsnum" where
  "js_max c (Num x) = Num (max c x)"
| "js_max c PosInf = PosInf"
| "js_max c NegInf = Num c"
| "js_max c NaN = NaN"

text \<open>\<^verbatim>\<open>function clamp(value) { return Math.max(0, Math.min(255, value)); }\<close>\<close>

definition clamp :: "jsnum \<Rightarrow> jsnum" where
  "clamp v = js_max 0 (js_min 255 v)"

text \<open>
  Storing a Number into a \<^verbatim>\<open>Uint8ClampedArray\<close> (ECMAScript \<^verbatim>\<open>ToUint8Clamp\<close>): NaN is 0,
  the value is clamped to 0..255 and rounded to the nearest integer, a tie to the even one.
\<close>

definition roundHalfEven :: "rat \<Rightarrow> int" where
  "roundHalfEven x =
     (let f = \<lfloor>x\<rfloor> in
      if x < of_int f + 1 / 2 then f
      else if of_int f + 1 / 2 < x then f + 1
      else if even f then f else f + 1)"

fun toUint8Clamp :: "jsnum \<Rightarrow> 8 word" where
  "toUint8Clamp NaN = 0"
| "toUint8Clamp PosInf = 255"
| "toUint8Clamp NegInf = 0"
| "toUint8Clamp (Num x) = word_of_int (roundHalfEven (min 255 (max 0 x)))"

section \<open>Image data\<close>

text \<open>
  \<^verbatim>\<open>ImageData.data\<close> holds four bytes per pixel, in the order R, G, B, A; the loops of the
  source step through it four bytes at a time. The model keeps one record per step.
\<close>

record pixel =
  red :: "8 word"
  green :: "8 word"
  blue :: "8 word"
  alpha :: "8 word"

text \<open>A byte of \<^verbatim>\<open>data\<close> read as a Number.\<close>

definition channelValue :: "8 word \<Rightarrow> rat" where
  "channelValue w = rat_of_nat (unat w)"

text \<open>The weighted sum \<^verbatim>\<open>0.299 * r + 0.587 * g + 0.114 * b\<close> of both loops.\<close>

definition luminance :: "rat \<Rightarrow> rat \<Rightarrow> rat \<Rightarrow> rat" where
  "luminance r g b = 0.299 * r + 0.587 * g + 0.114 * b"

text \<open>The luminance of a pixel of \<^verbatim>\<open>data\<close>.\<close>

definition pixelLuminance :: "pixel \<Rightarrow> rat" where
  "pixelLuminance p =
     luminance (channelValue (red p)) (channelValue (green p)) (channelValue (blue p))"

section \<open>applyFilters\<close>

text \<open>
  The options object; an absent key takes the default of the destructuring
  \<^verbatim>\<open>const { grayscale = false, contrast = 1.0, brightness = 0, sharpen = 0 } = options\<close>.
\<close>

record FilterOptions =
  grayscale :: "bool option"
  contrast :: "rat option"
  brightness :: "rat option"
  sharpen :: "rat option"

definition orDefault :: "'a \<Rightarrow> 'a option \<Rightarrow> 'a" where
  "orDefault d v = (case v of None \<Rightarrow> d | Some x \<Rightarrow> x)"

text \<open>
  \<^verbatim>\<open>const factor = (259 * (contrast * 255 + 255)) / (255 * (259 - contrast * 255))\<close>
\<close>

definition contrastFactor :: "rat \<Rightarrow> jsnum" where
  "contrastFactor c = js_div (259 * (c * 255 + 255)) (255 * (259 - c * 255))"

text \<open>One turn of the loop over \<^verbatim>\<open>data\<close>: the bytes at \<open>i\<close>, \<open>i + 1\<close>, \<open>i + 2\<close> are
  rewritten, the byte at \<open>i + 3\<close> is not touched.\<close>

definition filterPixel :: "bool \<Rightarrow> rat \<Rightarrow> rat \<Rightarrow> jsnum \<Rightarrow> pixel \<Rightarrow> pixel" where
  "filterPixel gs c br factor p =
     (let r = channelValue (red p);
          g = channelValue (green p);
          b = channelValue (blue p);
          gray = luminance r g b;
          r = (if gs then gray else r);
          g = (if gs then gray else g);
          b = (if gs then gray else b);
          r = (if c \<noteq> 1 then js_add (js_mul factor (r - 128)) 128 else Num r);
          g = (if c \<noteq> 1 then js_add (js_mul factor (g - 128)) 128 else Num g);
          b = (if c \<noteq> 1 then js_add (js_mul factor (b - 128)) 128 else Num b);
          r = (if br \<noteq> 0 then js_add r br else r);
          g = (if br \<noteq> 0 then js_add g br else g);
          b = (if br \<noteq> 0 then js_add b br else b)
      in p\<lparr>red := toUint8Clamp (clamp r),
            green := toUint8Clamp (clamp g),
            blue := toUint8Clamp (clamp b)\<rparr>)"

text \<open>
  \<open>applyFilters\<close> on the pixel data between \<^verbatim>\<open>getImageData\<close> and the final
  \<^verbatim>\<open>toDataURL\<close>; decoding the data URL it is given and encoding its result as JPEG are
  done by the browser and are not part of the model. The block guarded by
  \<^verbatim>\<open>sharpen > 0\<close> holds comments only, so both branches of that test leave the data as
  they are.
\<close>

definition applyFilters :: "FilterOptions \<Rightarrow> pixel list \<Rightarrow> pixel list" where
  "applyFilters options data =
     (let gs = orDefault False (grayscale options);
          c = orDefault 1 (contrast options);
          br = orDefault 0 (brightness options);
          sh = orDefault 0 (sharpen options);
          data1 = (if gs \<or> c \<noteq> 1 \<or> br \<noteq> 0
                   then map (filterPixel gs c br (contrastFactor c)) data
                   else data)
      in if 0 < sh then data1 else data1)"

text \<open>The test that guards the loop: \<^verbatim>\<open>grayscale || contrast !== 1.0 || brightness !== 0\<close>.\<close>

definition entersPixelLoop :: "FilterOptions \<Rightarrow> bool" where
  "entersPixelLoop options =
     (orDefault False (grayscale options) \<or> orDefault 1 (contrast options) \<noteq> 1
        \<or> orDefault 0 (brightness options) \<noteq> 0)"

text \<open>
  The loop body with the block \<^verbatim>\<open>if (contrast !== 1.0) { ... }\<close> taken out, and the
  pipeline built from it: the comparison object for the statement that a contrast of 1.0
  does nothing.
\<close>

definition filterPixelNoContrast :: "bool \<Rightarrow> rat \<Rightarrow> pixel \<Rightarrow> pixel" where
  "filterPixelNoContrast gs br p =
     (let r = channelValue (red p);
          g = channelValue (green p);
          b = channelValue (blue p);
          gray = luminance r g b;
          r = (if gs then gray else r);
          g = (if gs then gray else g);
          b = (if gs then gray else b);
          r = (if br \<noteq> 0 then js_add (Num r) br else Num r);
          g = (if br \<noteq> 0 then js_add (Num g) br else Num g);
          b = (if br \<noteq> 0 then js_add (Num b) br else Num b)
      in p\<lparr>red := toUint8Clamp (clamp r),
            green := toUint8Clamp (clamp g),
            blue := toUint8Clamp (clamp b)\<rparr>)"

definition applyFiltersNoContrast :: "FilterOptions \<Rightarrow> pixel list \<Rightarrow> pixel list" where
  "applyFiltersNoContrast options data =
     (let gs = orDefault False (grayscale options);
          br = orDefault 0 (brightness options);
          sh = orDefault 0 (sharpen options);
          data1 = (if gs \<or> br \<noteq> 0
                   then map (filterPixelNoContrast gs br) data
                   else data)
      in if 0 < sh then data1 else data1)"

section \<open>isLowLight\<close>

text \<open>
  The video element as the sampler sees it: its intrinsic size and, for a source position
  (which may be fractional, or outside the frame), the colour the canvas reads there when
  it draws the current frame without scaling.
\<close>

record VideoElement =
  videoWidth :: nat
  videoHeight :: nat
  pixelAt :: "rat \<Rightarrow> rat \<Rightarrow> pixel"

text \<open>A canvas is transparent black until something is drawn.\<close>

definition transparent :: pixel where
  "transparent = \<lparr>red = 0, green = 0, blue = 0, alpha = 0\<rparr>"

text \<open>
  \<^verbatim>\<open>context.drawImage(video, sx, sy, size, size, 0, 0, size, size)\<close> on a fresh
  \<open>size\<close> by \<open>size\<close> canvas, followed by \<^verbatim>\<open>getImageData(0, 0, size, size).data\<close>, row by row.
  A video without intrinsic size has no frame to draw from, and the canvas stays as it was.
\<close>

definition drawWindow :: "VideoElement \<Rightarrow> rat \<Rightarrow> rat \<Rightarrow> nat \<Rightarrow> pixel list" where
  "drawWindow video sx sy sz =
     (if videoWidth video = 0 \<or> videoHeight video = 0
      then replicate (sz * sz) transparent
      else concat (map (\<lambda>j. map (\<lambda>i. pixelAt video (sx + rat_of_nat i) (sy + rat_of_nat j))
                                [0..<sz]) [0..<sz]))"

text \<open>The sampled region of \<open>isLowLight\<close>: \<open>size = 50\<close>, taken from the centre.\<close>

definition sampleWindow :: "VideoElement \<Rightarrow> pixel list" where
  "sampleWindow video =
     (let sz = 50;
          sx = (rat_of_nat (videoWidth video) - rat_of_nat sz) / 2;
          sy = (rat_of_nat (videoHeight video) - rat_of_nat sz) / 2
      in drawWindow video sx sy sz)"

text \<open>The loop \<^verbatim>\<open>for (let i = 0; i < data.length; i += 4) totalBrightness += ...\<close>.\<close>

fun totalBrightness :: "pixel list \<Rightarrow> rat \<Rightarrow> rat" where
  "totalBrightness [] acc = acc"
| "totalBrightness (p # ps) acc =
     totalBrightness ps
       (acc + luminance (channelValue (red p)) (channelValue (green p)) (channelValue (blue p)))"

text \<open>\<^verbatim>\<open>const avgBrightness = totalBrightness / (data.length / 4)\<close>\<close>

definition avgBrightness :: "pixel list \<Rightarrow> rat" where
  "avgBrightness data = totalBrightness data 0 / (rat_of_nat (4 * length data) / 4)"

definition isLowLight :: "VideoElement option \<Rightarrow> bool" where
  "isLowLight video =
     (case video of
        None \<Rightarrow> False
      | Some v \<Rightarrow> avgBrightness (sampleWindow v) < 80)"

section \<open>captureStrategy\<close>

datatype facing = User | Environment

text \<open>Calls made on the video track: \<^verbatim>\<open>applyConstraints({ advanced: [{ torch: on }] })\<close>.\<close>

datatype trackCall = SetTorch bool

text \<open>
  What the browser and the device answer during one capture: whether the track rejects a
  torch constraint; the rows that reach the canvas when the frame is grabbed (\<open>None\<close>
  when a step of the grab throws); the pixel data \<open>applyFilters\<close> reads back from the
  JPEG data URL of the canvas (\<open>None\<close> when the image never loads, so that the promise
  of \<open>applyFilters\<close> is never resolved).
\<close>

record Browser =
  rejectsTorch :: "bool \<Rightarrow> bool"
  grabbedRows :: "pixel list list option"
  jpegReadBack :: "pixel list \<Rightarrow> pixel list option"

text \<open>
  The state of the component (refs and React state), the torch of the track, the calls
  made on the track, the lines written with \<^verbatim>\<open>console.error\<close> and the time spent in
  the settle delays. The captured image is kept as the pixel data that is handed to the
  last \<^verbatim>\<open>toDataURL\<close>.
\<close>

record Camera =
  videoRef :: "VideoElement option"
  canvasRef :: bool
  stream :: bool
  torchSupported :: bool
  facingMode :: facing
  processing :: bool
  isFlashing :: bool
  capturedImage :: "pixel list option"
  error :: "string option"
  torchLit :: bool
  trackCalls :: "trackCall list"
  console :: "string list"
  elapsed :: nat

definition setTorch :: "Browser \<Rightarrow> bool \<Rightarrow> Camera \<Rightarrow> Camera" where
  "setTorch env on cam =
     (if stream cam \<and> torchSupported cam
      then (let cam1 = cam\<lparr>trackCalls := trackCalls cam @ [SetTorch on]\<rparr>
            in if rejectsTorch env on
               then cam1\<lparr>console := console cam1 @ [''Failed to set torch:'']\<rparr>
               else cam1\<lparr>torchLit := on\<rparr>)
      else cam)"

text \<open>\<^verbatim>\<open>await new Promise(r => setTimeout(r, ms))\<close>\<close>

definition sleep :: "nat \<Rightarrow> Camera \<Rightarrow> Camera" where
  "sleep ms cam = cam\<lparr>elapsed := elapsed cam + ms\<rparr>"

text \<open>The options \<open>captureStrategy\<close> passes to \<open>applyFilters\<close>.\<close>

definition captureFilters :: FilterOptions where
  "captureFilters =
     \<lparr>grayscale = Some True, contrast = Some 1.2, brightness = Some 20, sharpen = Some 0.7\<rparr>"

text \<open>An async function either returns or stays suspended at an \<^verbatim>\<open>await\<close> for ever.\<close>

datatype completion = Returned | Pending

text \<open>
  \<open>captureStrategy\<close> of \<^verbatim>\<open>src/components/CameraView.jsx\<close>: the guard on the two refs,
  then the \<^verbatim>\<open>try\<close> block, whose only modelled exception is the one of the grab;
  \<^verbatim>\<open>catch\<close> writes to the console and \<^verbatim>\<open>finally\<close> clears \<open>processing\<close>. The
  timer that clears \<open>isFlashing\<close> runs outside the sequence. The other copies of the
  component differ in the focus delay (400 ms, or a focus lock of 100 ms) and in the
  options given to \<open>applyFilters\<close>, not in the order of torch, grab and torch.
\<close>

definition captureStrategy :: "Browser \<Rightarrow> Camera \<Rightarrow> completion \<times> Camera" where
  "captureStrategy env cam0 =
     (if videoRef cam0 = None \<or> \<not> canvasRef cam0 then (Returned, cam0)
      else
        let cam = cam0\<lparr>processing := True\<rparr>;
            lowLight = isLowLight (videoRef cam);
            cam = (if lowLight \<and> torchSupported cam
                   then sleep 300 (setTorch env True cam) else cam);
            cam = sleep 300 cam;
            cam = cam\<lparr>isFlashing := True\<rparr>
        in case grabbedRows env of
             None \<Rightarrow>
               (Returned,
                cam\<lparr>console := console cam @ [''Capture failed:''], processing := False\<rparr>)
           | Some rows \<Rightarrow>
               let rows = (if facingMode cam = User then map rev rows else rows);
                   cam = (if lowLight \<and> torchSupported cam
                          then setTorch env False cam else cam)
               in case jpegReadBack env (concat rows) of
                    None \<Rightarrow> (Pending, cam)
                  | Some data \<Rightarrow>
                      (Returned,
                       cam\<lparr>capturedImage := Some (applyFilters captureFilters data),
                           processing := False\<rparr>))"

section \<open>Named inputs\<close>


definition neutralOptions :: FilterOptions where
  "neutralOptions =
     \<lparr>grayscale = Some False, contrast = Some 1, brightness = Some 0, sharpen = Some 0\<rparr>"

definition absentOptions :: FilterOptions where
  "absentOptions = \<lparr>grayscale = None, contrast = None, brightness = None, sharpen = None\<rparr>"


definition brightenOnly :: FilterOptions where
  "brightenOnly =
     \<lparr>grayscale = Some True, contrast = Some 1, brightness = Some 20, sharpen = None\<rparr>"

definition white :: pixel where
  "white = \<lparr>red = 255, green = 255, blue = 255, alpha = 255\<rparr>"

definition orange :: pixel where
  "orange = \<lparr>red = 200, green = 100, blue = 50, alpha = 77\<rparr>"

definition darkVideo :: VideoElement where
  "darkVideo = \<lparr>videoWidth = 640, videoHeight = 480,
                 pixelAt = (\<lambda>x y. \<lparr>red = 0, green = 0, blue = 0, alpha = 255\<rparr>)\<rparr>"


text \<open>A video element whose stream has not delivered a frame yet.\<close>

definition notReadyVideo :: VideoElement where
  "notReadyVideo = \<lparr>videoWidth = 0, videoHeight = 0, pixelAt = (\<lambda>x y. transparent)\<rparr>"

definition idleCamera :: "VideoElement option \<Rightarrow> Camera" where
  "idleCamera v =
     \<lparr>videoRef = v, canvasRef = True, stream = True, torchSupported = True,
      facingMode = Environment, processing = False, isFlashing = False,
      capturedImage = None, error = None, torchLit = False, trackCalls = [],
      console = [], elapsed = 0\<rparr>"

text \<open>A browser in which the grab throws (\<^verbatim>\<open>getContext('2d')\<close> gives \<^verbatim>\<open>null\<close>, say).\<close>

definition grabThrows :: Browser where
  "grabThrows = \<lparr>rejectsTorch = (\<lambda>on. False), grabbedRows = None,
                  jpegReadBack = (\<lambda>d. Some d)\<rparr>"

text \<open>
  A browser that grabs a canvas without rows; its data URL is \<^verbatim>\<open>data:,\<close>, which never
  loads as an image.
\<close>

definition emptyGrab :: Browser where
  "emptyGrab = \<lparr>rejectsTorch = (\<lambda>on. False), grabbedRows = Some [],
                 jpegReadBack = (\<lambda>d. None)\<rparr>"

definition quietBrowser :: Browser where
  "quietBrowser = \<lparr>rejectsTorch = (\<lambda>on. False), grabbedRows = Some [[white]],
                    jpegReadBack = (\<lambda>d. Some d)\<rparr>"

section \<open>Bytes, rounding and the clamped store\<close>

lemma roundHalfEven_of_nat: "roundHalfEven (rat_of_nat n) = int n"
  by (simp add: roundHalfEven_def)

lemma unat_le_255: "unat (w :: 8 word) \<le> 255"
  using unsigned_less [of w, where ?'a = nat] by simp

lemma channelValue_range: "0 \<le> channelValue w \<and> channelValue w \<le> 255"
proof -
  have "rat_of_nat (unat w) \<le> rat_of_nat 255"
    using unat_le_255 [of w] by (simp only: of_nat_le_iff)
  moreover have "0 \<le> rat_of_nat (unat w)"
    by (rule of_nat_0_le_iff)
  ultimately show ?thesis
    unfolding channelValue_def by (simp del: of_nat_unat)
qed


lemma store_plain: "toUint8Clamp (Num (channelValue w)) = w"
proof -
  have r: "0 \<le> channelValue w \<and> channelValue w \<le> 255" by (rule channelValue_range)
  then have m: "min 255 (max 0 (channelValue w)) = channelValue w"
    by (simp add: min_def max_def)
  have "roundHalfEven (channelValue w) = int (unat w)"
    unfolding channelValue_def by (rule roundHalfEven_of_nat)
  then show ?thesis
    by (simp add: m)
qed

lemma store_channelValue: "toUint8Clamp (clamp (Num (channelValue w))) = w"
proof -
  have r: "0 \<le> channelValue w \<and> channelValue w \<le> 255" by (rule channelValue_range)
  then have "clamp (Num (channelValue w)) = Num (channelValue w)"
    by (simp add: clamp_def min_def max_def)
  then show ?thesis by (simp only: store_plain)
qed




section \<open>Luminance\<close>





section \<open>The loop body of applyFilters\<close>

lemma applyFilters_guard:
  "applyFilters options data =
     (if entersPixelLoop options
      then map (filterPixel (orDefault False (grayscale options))
                  (orDefault 1 (contrast options)) (orDefault 0 (brightness options))
                  (contrastFactor (orDefault 1 (contrast options)))) data
      else data)"
  by (simp add: applyFilters_def entersPixelLoop_def Let_def)




lemma filterPixel_contrast_one: "filterPixel gs 1 br f p = filterPixelNoContrast gs br p"
  by (simp add: filterPixel_def filterPixelNoContrast_def Let_def)



section \<open>The sampled window\<close>

lemma totalBrightness_sum:
  "totalBrightness data acc = acc + (\<Sum>p\<leftarrow>data. pixelLuminance p)"
  by (induction data arbitrary: acc) (simp_all add: pixelLuminance_def)

lemma avgBrightness_mean:
  "avgBrightness data = (\<Sum>p\<leftarrow>data. pixelLuminance p) / rat_of_nat (length data)"
  by (simp add: avgBrightness_def totalBrightness_sum)

lemma length_grid: "length (concat (map (\<lambda>j. map (f j) [0..<n]) [0..<m])) = m * n"
  by (induction m) simp_all


lemma length_sampleWindow: "length (sampleWindow v) = 2500"
  by (simp add: sampleWindow_def drawWindow_def Let_def length_grid)

lemma sampleWindow_blank:
  "videoWidth v = 0 \<or> videoHeight v = 0 \<Longrightarrow> sampleWindow v = replicate 2500 transparent"
  by (auto simp add: sampleWindow_def drawWindow_def Let_def)

lemma sampleWindow_pixels:
  assumes "0 < videoWidth v" "0 < videoHeight v" "p \<in> set (sampleWindow v)"
  shows "\<exists>x y. p = pixelAt v x y"
  using assms by (auto simp add: sampleWindow_def drawWindow_def Let_def)

lemma sum_list_const:
  "(\<And>p. p \<in> set data \<Longrightarrow> g p = c) \<Longrightarrow> (\<Sum>p\<leftarrow>data. g p) = rat_of_nat (length data) * c"
  by (induction data) (simp_all add: algebra_simps)

lemma avgBrightness_const:
  assumes "\<And>p. p \<in> set data \<Longrightarrow> pixelLuminance p = c" and "data \<noteq> []"
  shows "avgBrightness data = c"
  using assms(2) by (simp add: avgBrightness_mean sum_list_const [OF assms(1)])

lemma isLowLight_absent: "\<not> isLowLight None"
  by (simp add: isLowLight_def)

lemma isLowLight_unready:
  assumes "videoWidth v = 0 \<or> videoHeight v = 0"
  shows "isLowLight (Some v)"
proof -
  have "avgBrightness (sampleWindow v) = 0"
  proof (rule avgBrightness_const)
    fix p assume "p \<in> set (sampleWindow v)"
    then have "p = transparent" using sampleWindow_blank [OF assms] by simp
    then show "pixelLuminance p = 0"
      by (simp add: pixelLuminance_def luminance_def channelValue_def transparent_def)
  next
    show "sampleWindow v \<noteq> []" using length_sampleWindow [of v] by auto
  qed
  then show ?thesis by (simp add: isLowLight_def)
qed

lemma darkVideo_pixels:
  assumes "p \<in> set (sampleWindow darkVideo)"
  shows "red p = 0 \<and> green p = 0 \<and> blue p = 0"
proof -
  have "\<exists>x y. p = pixelAt darkVideo x y"
    using assms by (intro sampleWindow_pixels) (simp_all add: darkVideo_def)
  then show ?thesis by (auto simp add: darkVideo_def)
qed


lemma isLowLight_darkVideo: "isLowLight (Some darkVideo)"
proof -
  have "avgBrightness (sampleWindow darkVideo) = 0"
  proof (rule avgBrightness_const)
    fix p assume "p \<in> set (sampleWindow darkVideo)"
    then have "red p = 0 \<and> green p = 0 \<and> blue p = 0" by (rule darkVideo_pixels)
    then show "pixelLuminance p = 0"
      by (simp add: pixelLuminance_def luminance_def channelValue_def)
  next
    show "sampleWindow darkVideo \<noteq> []" using length_sampleWindow [of darkVideo] by auto
  qed
  then show ?thesis by (simp add: isLowLight_def)
qed

section \<open>The capture sequence\<close>

text \<open>
  On the path without an exception the torch is off when \<open>captureStrategy\<close> returns,
  provided the track accepts the constraint that switches it off.
\<close>

lemma torch_off_after_grab:
  assumes "captureStrategy env cam = (Returned, cam')" and "grabbedRows env \<noteq> None"
    and "\<not> rejectsTorch env False" and "\<not> torchLit cam"
  shows "\<not> torchLit cam'"
  using assms
  by (auto simp add: captureStrategy_def Let_def setTorch_def sleep_def
      split: if_splits option.splits)

section \<open>Claims\<close>

text \<open>
  C1. Claim: whenever the scene is low-light and the torch is supported, the torch is off
  again when the capture returns, also when the grab throws. The code does not do this:
  the call that switches the torch off stands after the grab inside the \<^verbatim>\<open>try\<close>
  block, and neither \<^verbatim>\<open>catch\<close> nor \<^verbatim>\<open>finally\<close> repeats it. Evaluated on a dark
  scene with a grab that throws, \<open>captureStrategy\<close> returns with the torch lit, after the
  single track call that switched it on.
\<close>

theorem captureStrategy_leaves_torch_lit_when_grab_throws:
  "captureStrategy grabThrows (idleCamera (Some darkVideo)) =
     (Returned, (idleCamera (Some darkVideo))
        \<lparr>isFlashing := True, torchLit := True, trackCalls := [SetTorch True],
         console := [''Capture failed:''], elapsed := 600\<rparr>)"
  by (simp add: captureStrategy_def Let_def isLowLight_darkVideo idleCamera_def grabThrows_def
      setTorch_def sleep_def)




text \<open>
  C3 (amended). \<open>applyFilters\<close> applies no convolution for any sharpen weight: for every
  input and all options, the output with a sharpen weight (positive or not, or absent)
  equals the output with sharpen 0.
\<close>

theorem sharpen_changes_nothing:
  "applyFilters (options\<lparr>sharpen := s\<rparr>) data = applyFilters (options\<lparr>sharpen := Some 0\<rparr>) data"
  by (simp add: applyFilters_def Let_def)

theorem sharpen_changes_nothing_witness:
  "sharpen captureFilters = Some 0.7 \<and>
   applyFilters captureFilters [orange, white] =
     applyFilters (captureFilters\<lparr>sharpen := Some 0\<rparr>) [orange, white]"
  using sharpen_changes_nothing
    [where options = captureFilters and s = "Some 0.7" and data = "[orange, white]"]
  by (simp add: captureFilters_def)

text \<open>No input tells a positive sharpen weight from sharpen 0.\<close>

theorem no_input_shows_sharpening:
  "\<not> (\<exists>options data. 0 < orDefault 0 (sharpen options) \<and>
         applyFilters options data \<noteq> applyFilters (options\<lparr>sharpen := Some 0\<rparr>) data)"
  by (simp add: applyFilters_def Let_def)

text \<open>
  C4 (amended). When \<open>captureStrategy\<close> is invoked without a video element or without a
  canvas, it returns at once and leaves the whole state as it was: nothing is reported,
  \<open>processing\<close> is not set, the track is not called and no image is stored.
\<close>

theorem capture_without_refs_is_silent:
  assumes "videoRef cam = None \<or> \<not> canvasRef cam"
  shows "captureStrategy env cam = (Returned, cam)"
  using assms by (auto simp add: captureStrategy_def)

theorem capture_without_refs_is_silent_witness:
  "videoRef (idleCamera None) = None \<and>
   captureStrategy quietBrowser (idleCamera None) = (Returned, idleCamera None)"
  using capture_without_refs_is_silent [of "idleCamera None" quietBrowser]
  by (simp add: idleCamera_def)

text \<open>Without a video element the capture returns and no error is reported anywhere.\<close>

theorem capture_without_video_reports_nothing:
  "fst (captureStrategy quietBrowser (idleCamera None)) = Returned \<and>
   \<not> (error (snd (captureStrategy quietBrowser (idleCamera None))) \<noteq> None \<or>
      console (snd (captureStrategy quietBrowser (idleCamera None))) \<noteq> [])"
  by (simp add: captureStrategy_def idleCamera_def)





text \<open>
  C7. A contrast of 1.0 (given, or absent so that the default applies) is a no-op: for
  every input and all such options \<open>applyFilters\<close> gives exactly the output of the
  pipeline from which the contrast stage is removed.
\<close>

theorem contrast_one_is_noop:
  assumes "orDefault 1 (contrast options) = 1"
  shows "applyFilters options data = applyFiltersNoContrast options data"
  using assms
  by (simp add: applyFilters_def applyFiltersNoContrast_def Let_def filterPixel_contrast_one)

theorem contrast_one_is_noop_witness:
  "orDefault 1 (contrast brightenOnly) = 1 \<and>
   applyFilters brightenOnly [orange, white] = applyFiltersNoContrast brightenOnly [orange, white]"
  using contrast_one_is_noop [of brightenOnly "[orange, white]"]
  by (simp add: brightenOnly_def orDefault_def)



text \<open>
  C9. Claim: for a frame source without valid dimensions the sampler answers "unknown"
  and the capture engages no torch. The code does not do this: \<open>isLowLight\<close> answers
  \<open>false\<close> only for an absent video element; for a video element without dimensions it
  samples the blank canvas, finds brightness 0 and answers low-light, and
  \<open>captureStrategy\<close> switches the torch on.
\<close>

theorem unready_video_is_low_light_and_lights_torch:
  "isLowLight (Some notReadyVideo) \<and>
   captureStrategy emptyGrab (idleCamera (Some notReadyVideo)) =
     (Pending, (idleCamera (Some notReadyVideo))
        \<lparr>processing := True, isFlashing := True,
         trackCalls := [SetTorch True, SetTorch False], elapsed := 600\<rparr>)"
proof -
  have low: "isLowLight (Some notReadyVideo)"
    by (rule isLowLight_unready) (simp add: notReadyVideo_def)
  then show ?thesis
    by (simp add: captureStrategy_def Let_def idleCamera_def emptyGrab_def setTorch_def
        sleep_def)
qed

text \<open>
  C10. With the neutral options \<open>{grayscale: false, contrast: 1.0, brightness: 0,
  sharpen: 0}\<close>, and equally with no option given, the loop over the pixels is not
  entered and every byte of the frame, alpha included, is unchanged.
\<close>

theorem neutral_options_leave_frame_unchanged:
  "\<not> entersPixelLoop neutralOptions \<and> applyFilters neutralOptions data = data \<and>
   \<not> entersPixelLoop absentOptions \<and> applyFilters absentOptions data = data"
  by (simp add: applyFilters_guard entersPixelLoop_def neutralOptions_def absentOptions_def
      orDefault_def)

theorem neutral_options_leave_frame_unchanged_witness:
  "applyFilters neutralOptions [orange, white] = [orange, white] \<and>
   applyFilters absentOptions [orange, white] = [orange, white]"
  using neutral_options_leave_frame_unchanged [of "[orange, white]"]
  by simp

end
